theory Spec2Isabelle
  imports Complex_Main "HOL-Library.Char_ord" "HOL-Library.List_Lexorder"
    "HOL-Library.Product_Lexorder"
begin

section \<open>Numbers and library primitives\<close>

text \<open>
  Both scripts compute on IEEE doubles. A finite double is a rational number, so a
  column value is modelled as a \<open>rat\<close>: comparisons, clipping, minimum and maximum are
  exact on doubles and the model agrees with the code on them. Sums, means and products
  are computed exactly here, where the code rounds to the nearest double; every statement
  about a mean below is therefore a statement about the exact mean of the stored values.
  A result that may be NaN (the mean of an empty column, a statistic of a degenerate
  sample) is a \<open>pyfloat\<close>, with \<open>None\<close> for NaN; every comparison with NaN is false.
\<close>

type_synonym pyfloat = "rat option"


text \<open>\<open>np.rint\<close>: the nearest integer, a tie going to the even neighbour.\<close>

definition rint :: "rat \<Rightarrow> int" where
  "rint x =
     (let f = \<lfloor>x\<rfloor>; d = x - of_int f
      in if d < 1 / 2 then f
         else if 1 / 2 < d then f + 1
         else if even f then f else f + 1)"

text \<open>\<open>x.round(k)\<close> of numpy and pandas: scale by \<open>10 ^ k\<close>, \<open>rint\<close>, scale back.\<close>

definition np_round :: "nat \<Rightarrow> rat \<Rightarrow> rat" where
  "np_round k x = of_int (rint (x * 10 ^ k)) / 10 ^ k"

text \<open>\<open>np.clip(x, lo, hi)\<close> is \<open>minimum(maximum(x, lo), hi)\<close>.\<close>

definition np_clip :: "rat \<Rightarrow> rat \<Rightarrow> rat \<Rightarrow> rat" where
  "np_clip lo hi x = min (max x lo) hi"

text \<open>\<open>Series.mean()\<close>: NaN on an empty column.\<close>

definition mean :: "rat list \<Rightarrow> pyfloat" where
  "mean xs = (if xs = [] then None else Some (sum_list xs / of_nat (length xs)))"


section \<open>The interaction table\<close>

text \<open>
  One row of \<open>student_services_data.csv\<close>, with the sixteen columns the generator writes
  (\<open>generate_data.py\<close>, lines 118 to 135) and the report reads back. Every cell is
  present: the generator writes no missing value.
\<close>

record interaction =
  inquiry_id :: int
  department :: string
  inquiry_type :: string
  channel :: string
  student_type :: string
  quarter :: string
  month :: string
  day_of_week :: string
  time_slot :: string
  staff_member :: string
  wait_time_min :: rat
  service_time_min :: rat
  resolution :: string
  escalated :: string
  callback_required :: string
  satisfaction_score :: rat

text \<open>
  The table after line 272 of \<open>services_analysis.py\<close>: the same rows with the added
  categorical column \<open>wait_bucket\<close>, whose cell is \<open>None\<close> where \<open>pd.cut\<close> yields NaN.
\<close>

record bucketed = interaction +
  wait_bucket :: "string option"

section \<open>Grouping\<close>


text \<open>
  \<open>df.groupby(key, observed=True)\<close> on a categorical column: the groups follow the order
  of the categories, a category no row carries has no group, and a row whose cell is NaN
  is in no group.
\<close>

definition groupby_observed ::
  "string list \<Rightarrow> ('r \<Rightarrow> string option) \<Rightarrow> 'r list \<Rightarrow> (string \<times> 'r list) list" where
  "groupby_observed cats key df =
     map (\<lambda>c. (c, filter (\<lambda>r. key r = Some c) df))
       (filter (\<lambda>c. Some c \<in> set (map key df)) cats)"

section \<open>Wait-time buckets (services_analysis.py, lines 272 to 279)\<close>

text \<open>
  \<open>pd.cut(x, bins, labels)\<close> with the defaults \<open>right=True\<close> and \<open>include_lowest=False\<close>,
  as pandas computes it: \<open>ids = bins.searchsorted(x, side="left")\<close> counts the edges
  strictly below \<open>x\<close>; a value with \<open>ids = 0\<close> or \<open>ids = len(bins)\<close> lies outside every
  interval and becomes NaN; otherwise the label is \<open>labels[ids - 1]\<close>.
\<close>

definition pd_cut :: "rat list \<Rightarrow> string list \<Rightarrow> rat \<Rightarrow> string option" where
  "pd_cut bins labels x =
     (let ids = length (filter (\<lambda>b. b < x) bins)
      in if ids = 0 \<or> ids = length bins then None else Some (labels ! (ids - 1)))"

definition wait_bins :: "rat list" where
  "wait_bins = [0, 5, 10, 15, 20, 50]"

definition wait_labels :: "string list" where
  "wait_labels = [''0-5 min'', ''5-10 min'', ''10-15 min'', ''15-20 min'', ''20+ min'']"

text \<open>Line 272: \<open>df["wait_bucket"] = pd.cut(df["wait_time_min"], bins=..., labels=...)\<close>.\<close>

definition assign_wait_bucket :: "interaction list \<Rightarrow> bucketed list" where
  "assign_wait_bucket df =
     map (\<lambda>r. interaction.extend r
            (bucketed.fields (pd_cut wait_bins wait_labels (wait_time_min r)))) df"

record wait_row =
  bucket :: string
  wb_count :: nat
  wb_avg_sat :: pyfloat

text \<open>
  Lines 276 to 279: \<open>count=("inquiry_id", "count")\<close>, \<open>avg_sat=("satisfaction_score",
  "mean")\<close>, then \<open>.round(2)\<close>, which rounds the float column and leaves the count.
\<close>

definition sat_by_wait :: "bucketed list \<Rightarrow> wait_row list" where
  "sat_by_wait df =
     map (\<lambda>(b, g). \<lparr>bucket = b, wb_count = length (map inquiry_id g),
                     wb_avg_sat = map_option (np_round 2) (mean (map satisfaction_score g))\<rparr>)
       (groupby_observed wait_labels wait_bucket df)"

section \<open>Global KPIs (services_analysis.py, lines 41 to 47)\<close>








section \<open>Per-department KPIs (lines 58 to 64)\<close>



section \<open>Volume patterns (lines 108 to 136)\<close>











section \<open>Channel statistics (lines 162 to 169)\<close>



section \<open>Staff performance (lines 207 to 214)\<close>




section \<open>Satisfaction drivers (lines 248 to 279)\<close>




datatype py_error = ValueError | KeyError string




section \<open>The report as a whole\<close>



section \<open>The data generator (generate_data.py)\<close>

subsection \<open>The random source\<close>

text \<open>
  \<open>numpy.random\<close> is library code: its samplers are parameters of the model, over a type
  \<open>'g\<close> of generator states. \<open>random_seed s\<close> is the state \<open>np.random.seed(s)\<close> installs,
  whatever the state was before; each sampler takes a state and returns one sample with
  the state that follows. The decimal literals of the script stand for the doubles
  nearest to them and are written here as the decimal fractions themselves.
\<close>

record 'g np_random =
  random_seed :: "nat \<Rightarrow> 'g"
  random_choice :: "string list \<Rightarrow> rat list option \<Rightarrow> 'g \<Rightarrow> string \<times> 'g"
  random_exponential :: "rat \<Rightarrow> 'g \<Rightarrow> rat \<times> 'g"
  random_normal :: "rat \<Rightarrow> rat \<Rightarrow> 'g \<Rightarrow> rat \<times> 'g"

text \<open>A call with \<open>size = n\<close> fills an array with \<open>n\<close> successive samples.\<close>

fun draw_n :: "nat \<Rightarrow> ('g \<Rightarrow> 'a \<times> 'g) \<Rightarrow> 'g \<Rightarrow> 'a list \<times> 'g" where
  "draw_n 0 f g = ([], g)"
| "draw_n (Suc n) f g =
     (let (x, g') = f g; (xs, g'') = draw_n n f g' in (x # xs, g''))"

text \<open>
  \<open>[np.random.choice(table[k]) for k in keys]\<close>: one uniform choice per key, in order;
  a key the dictionary lacks raises \<open>KeyError\<close>.
\<close>

fun choice_each ::
  "'g np_random \<Rightarrow> (string \<times> string list) list \<Rightarrow> string list \<Rightarrow> 'g
     \<Rightarrow> py_error + (string list \<times> 'g)" where
  "choice_each np table [] g = Inr ([], g)"
| "choice_each np table (k # ks) g =
     (case map_of table k of
        None \<Rightarrow> Inl (KeyError k)
      | Some opts \<Rightarrow>
          (let (x, g') = random_choice np opts None g
           in case choice_each np table ks g' of
                Inl e \<Rightarrow> Inl e
              | Inr (xs, g'') \<Rightarrow> Inr (x # xs, g'')))"

definition month_map :: "(string \<times> string list) list" where
  "month_map =
     [(''Fall 2024'', [''Sep'', ''Oct'', ''Nov'', ''Dec'']),
      (''Winter 2025'', [''Jan'', ''Feb'', ''Mar'']),
      (''Spring 2025'', [''Apr'', ''May'', ''Jun'']),
      (''Summer 2025'', [''Jul'', ''Aug''])]"

definition inquiry_type_map :: "(string \<times> string list) list" where
  "inquiry_type_map =
     [(''Financial Aid'',
         [''FAFSA Status'', ''Award Letter'', ''Scholarship Inquiry'', ''Loan Questions'',
          ''Work-Study'']),
      (''Registrar'',
         [''Transcript Request'', ''Enrollment Verification'', ''Grade Change'',
          ''Graduation Check'', ''Add/Drop'']),
      (''Student Business Services'',
         [''Tuition Payment'', ''Refund Status'', ''Payment Plan'', ''Account Hold'', ''1098-T'']),
      (''Admissions'',
         [''Application Status'', ''Admission Decision'', ''Transfer Credits'', ''Orientation'',
          ''Residency'']),
      (''General Inquiry'',
         [''Campus Resources'', ''Department Referral'', ''Hours/Location'', ''General Question'',
          ''Complaint''])]"

subsection \<open>The random draws, in the order the script makes them\<close>

record rng_draws =
  d_departments :: "string list"
  d_channel :: "string list"
  d_quarter :: "string list"
  d_months :: "string list"
  d_day_of_week :: "string list"
  d_hour :: "string list"
  d_staff :: "string list"
  d_inquiry_types :: "string list"
  d_student_type :: "string list"
  d_base_wait :: "rat list"
  d_base_service :: "rat list"
  d_resolution :: "string list"
  d_base_sat :: "rat list"
  d_callback_choice :: "string list"

text \<open>
  Lines 18 to 114, the calls into \<open>np.random\<close> only. The columns the script derives
  between these calls draw nothing, so the generator state passes from one call to the
  next exactly as below. The last draw is the \<open>np.random.choice(["Yes", "No"], n, ...)\<close>
  inside \<open>np.where\<close> on line 114: it is evaluated for all \<open>n\<close> rows.
\<close>

definition sample_draws :: "'g np_random \<Rightarrow> nat \<Rightarrow> 'g \<Rightarrow> py_error + rng_draws" where
  "sample_draws np n g0 =
     (let (departments, g1) =
            draw_n n (random_choice np
              [''Financial Aid'', ''Registrar'', ''Student Business Services'', ''Admissions'',
               ''General Inquiry'']
              (Some [30 / 100, 25 / 100, 20 / 100, 15 / 100, 10 / 100])) g0;
          (channel, g2) =
            draw_n n (random_choice np
              [''Walk-In'', ''Phone'', ''Email'', ''Virtual Appointment'']
              (Some [45 / 100, 25 / 100, 20 / 100, 10 / 100])) g1;
          (quarter, g3) =
            draw_n n (random_choice np
              [''Fall 2024'', ''Winter 2025'', ''Spring 2025'', ''Summer 2025'']
              (Some [35 / 100, 25 / 100, 25 / 100, 15 / 100])) g2
      in case choice_each np month_map quarter g3 of
           Inl e \<Rightarrow> Inl e
         | Inr (months, g4) \<Rightarrow>
             (let (day_of_week, g5) =
                    draw_n n (random_choice np
                      [''Monday'', ''Tuesday'', ''Wednesday'', ''Thursday'', ''Friday'']
                      (Some [22 / 100, 20 / 100, 20 / 100, 20 / 100, 18 / 100])) g4;
                  (hour, g6) =
                    draw_n n (random_choice np
                      [''8-10 AM'', ''10-12 PM'', ''12-2 PM'', ''2-4 PM'']
                      (Some [20 / 100, 35 / 100, 25 / 100, 20 / 100])) g5;
                  (staff, g7) =
                    draw_n n (random_choice np
                      [''Staff A'', ''Staff B'', ''Staff C'', ''Staff D'', ''Staff E'',
                       ''Staff F'', ''Staff G'', ''Staff H''] None) g6
              in case choice_each np inquiry_type_map departments g7 of
                   Inl e \<Rightarrow> Inl e
                 | Inr (inquiry_types, g8) \<Rightarrow>
                     (let (student_type, g9) =
                            draw_n n (random_choice np
                              [''Undergraduate'', ''Graduate'', ''Prospective'', ''Parent/Guardian'']
                              (Some [55 / 100, 20 / 100, 15 / 100, 10 / 100])) g8;
                          (base_wait, g10) = draw_n n (random_exponential np 8) g9;
                          (base_service, g11) = draw_n n (random_normal np 12 5) g10;
                          (resolution, g12) =
                            draw_n n (random_choice np
                              [''Resolved on First Contact'', ''Follow-Up Required'',
                               ''Escalated to Department'', ''Referred to Another Office'']
                              (Some [55 / 100, 20 / 100, 15 / 100, 10 / 100])) g11;
                          (base_sat, g13) = draw_n n (random_normal np (38 / 10) (8 / 10)) g12;
                          (callback_choice, g14) =
                            draw_n n (random_choice np [''Yes'', ''No'']
                              (Some [70 / 100, 30 / 100])) g13
                      in Inr \<lparr>d_departments = departments, d_channel = channel,
                              d_quarter = quarter, d_months = months,
                              d_day_of_week = day_of_week, d_hour = hour, d_staff = staff,
                              d_inquiry_types = inquiry_types, d_student_type = student_type,
                              d_base_wait = base_wait, d_base_service = base_service,
                              d_resolution = resolution, d_base_sat = base_sat,
                              d_callback_choice = callback_choice\<rparr>)))"

subsection \<open>The derived columns\<close>

text \<open>\<open>np.where(col == v, a, b)\<close>, cell by cell.\<close>

definition np_where_eq :: "string list \<Rightarrow> string \<Rightarrow> 'a \<Rightarrow> 'a \<Rightarrow> 'a list" where
  "np_where_eq col v a b = map (\<lambda>x. if x = v then a else b) col"

text \<open>
  The sum of two arrays, cell by cell. numpy raises \<open>ValueError\<close> on arrays of different
  lengths; \<open>derive_table\<close> below checks the lengths of all drawn columns first.
\<close>

definition add_cols :: "rat list \<Rightarrow> rat list \<Rightarrow> rat list" where
  "add_cols xs ys = map2 (+) xs ys"

text \<open>Lines 79 to 82.\<close>

definition wait_adj :: "string list \<Rightarrow> string list \<Rightarrow> string list \<Rightarrow> rat list" where
  "wait_adj channel_col quarter_col months =
     add_cols
       (add_cols (np_where_eq channel_col ''Walk-In'' 5 0)
                 (np_where_eq quarter_col ''Fall 2024'' 4 0))
       (map (\<lambda>m. if m \<in> set [''Sep'', ''Jan''] then 3 else 0) months)"

definition wait_time_col ::
  "rat list \<Rightarrow> string list \<Rightarrow> string list \<Rightarrow> string list \<Rightarrow> rat list" where
  "wait_time_col base_wait channel_col quarter_col months =
     map (\<lambda>x. np_round 1 (np_clip 0 45 x))
       (add_cols base_wait (wait_adj channel_col quarter_col months))"

text \<open>Lines 86 to 89.\<close>

definition service_adj :: "string list \<Rightarrow> string list \<Rightarrow> rat list" where
  "service_adj departments channel_col =
     add_cols
       (add_cols (np_where_eq departments ''Financial Aid'' 5 0)
                 (np_where_eq departments ''Student Business Services'' 3 0))
       (np_where_eq channel_col ''Email'' (- 4) 0)"

definition service_time_col :: "rat list \<Rightarrow> string list \<Rightarrow> string list \<Rightarrow> rat list" where
  "service_time_col base_service departments channel_col =
     map (\<lambda>x. np_round 1 (np_clip 2 40 x))
       (add_cols base_service (service_adj departments channel_col))"

text \<open>Lines 98 and 99.\<close>

definition fcr_boost :: "string list \<Rightarrow> rat list" where
  "fcr_boost departments =
     add_cols (np_where_eq departments ''General Inquiry'' (15 / 100) 0)
              (np_where_eq departments ''Registrar'' (5 / 100) 0)"

text \<open>Lines 103 to 107; the thresholds read the rounded wait time.\<close>

definition sat_adj :: "string list \<Rightarrow> rat list \<Rightarrow> rat list" where
  "sat_adj resolution_col wait_col =
     add_cols
       (add_cols
          (add_cols (np_where_eq resolution_col ''Resolved on First Contact'' (5 / 10) 0)
                    (np_where_eq resolution_col ''Escalated to Department'' (- (3 / 10)) 0))
          (map (\<lambda>w. if w > 20 then - (4 / 10) else 0) wait_col))
       (map (\<lambda>w. if w < 5 then 3 / 10 else 0) wait_col)"

definition satisfaction_col :: "rat list \<Rightarrow> string list \<Rightarrow> rat list \<Rightarrow> rat list" where
  "satisfaction_col base_sat resolution_col wait_col =
     map (\<lambda>x. np_round 1 (np_clip 1 5 x))
       (add_cols base_sat (sat_adj resolution_col wait_col))"

text \<open>Line 110.\<close>

definition escalated_col :: "string list \<Rightarrow> string list" where
  "escalated_col resolution_col =
     np_where_eq resolution_col ''Escalated to Department'' ''Yes'' ''No''"

text \<open>Lines 113 to 115: \<open>np.where(resolution == "Follow-Up Required", choice, "No")\<close>.\<close>

definition callback_col :: "string list \<Rightarrow> string list \<Rightarrow> string list" where
  "callback_col resolution_col callback_choice =
     map2 (\<lambda>r c. if r = ''Follow-Up Required'' then c else ''No'') resolution_col callback_choice"

subsection \<open>The table\<close>

text \<open>
  Lines 79 to 135 without the draws: the derived columns and the \<open>pd.DataFrame\<close> of the
  sixteen columns, row \<open>i\<close> holding cell \<open>i\<close> of each. \<open>inquiry_ids\<close> is \<open>range(10001,
  10001 + n)\<close>. Arrays of different lengths cannot be added or framed: numpy and pandas
  raise \<open>ValueError\<close>. The argument \<open>fcr_boost_col\<close> is the variable \<open>fcr_boost\<close> of
  line 98; no later line reads it.
\<close>

definition derive_table :: "nat \<Rightarrow> rng_draws \<Rightarrow> rat list \<Rightarrow> py_error + interaction list" where
  "derive_table n d fcr_boost_col =
     (if \<forall>len \<in> set [length (d_departments d), length (d_channel d), length (d_quarter d),
                       length (d_months d), length (d_day_of_week d), length (d_hour d),
                       length (d_staff d), length (d_inquiry_types d),
                       length (d_student_type d), length (d_base_wait d),
                       length (d_base_service d), length (d_resolution d),
                       length (d_base_sat d), length (d_callback_choice d)]. len = n
      then
        (let wait_col =
               wait_time_col (d_base_wait d) (d_channel d) (d_quarter d) (d_months d);
             service_col = service_time_col (d_base_service d) (d_departments d) (d_channel d);
             satisfaction = satisfaction_col (d_base_sat d) (d_resolution d) wait_col;
             escalated_c = escalated_col (d_resolution d);
             callback = callback_col (d_resolution d) (d_callback_choice d)
         in Inr (map (\<lambda>i.
                   \<lparr>inquiry_id = 10001 + int i,
                    department = d_departments d ! i,
                    inquiry_type = d_inquiry_types d ! i,
                    channel = d_channel d ! i,
                    student_type = d_student_type d ! i,
                    quarter = d_quarter d ! i,
                    month = d_months d ! i,
                    day_of_week = d_day_of_week d ! i,
                    time_slot = d_hour d ! i,
                    staff_member = d_staff d ! i,
                    wait_time_min = wait_col ! i,
                    service_time_min = service_col ! i,
                    resolution = d_resolution d ! i,
                    escalated = escalated_c ! i,
                    callback_required = callback ! i,
                    satisfaction_score = satisfaction ! i\<rparr>) [0..<n]))
      else Inl ValueError)"

definition build_df :: "nat \<Rightarrow> rng_draws \<Rightarrow> py_error + interaction list" where
  "build_df n d = derive_table n d (fcr_boost (d_departments d))"

text \<open>
  The script: line 11 seeds the generator, which replaces the state \<open>g_init\<close> the process
  started with; the draws and the table follow. Writing the CSV file and the printed
  summary are not modelled.
\<close>

definition generate_data ::
  "'g np_random \<Rightarrow> nat \<Rightarrow> nat \<Rightarrow> 'g \<Rightarrow> py_error + interaction list" where
  "generate_data np seed n g_init =
     (let g0 = random_seed np seed
      in case sample_draws np n g0 of
           Inl e \<Rightarrow> Inl e
         | Inr d \<Rightarrow> build_df n d)"

section \<open>The bucket view as the intervals describe it\<close>

text \<open>
  A second description of the satisfaction-by-wait view, written from its intended
  reading rather than from the code: each label with the interval it stands for, open on
  the left and closed on the right; a bucket lists the rows whose wait time lies in its
  interval, and the view has one line per bucket that holds a row.
\<close>

definition wait_intervals :: "(string \<times> rat \<times> rat) list" where
  "wait_intervals =
     [(''0-5 min'', 0, 5), (''5-10 min'', 5, 10), (''10-15 min'', 10, 15),
      (''15-20 min'', 15, 20), (''20+ min'', 20, 50)]"

definition rows_in :: "rat \<Rightarrow> rat \<Rightarrow> interaction list \<Rightarrow> interaction list" where
  "rows_in lo hi df = filter (\<lambda>r. lo < wait_time_min r \<and> wait_time_min r \<le> hi) df"

definition sat_by_wait_spec :: "interaction list \<Rightarrow> wait_row list" where
  "sat_by_wait_spec df =
     map (\<lambda>(l, lo, hi).
            \<lparr>bucket = l, wb_count = length (rows_in lo hi df),
             wb_avg_sat =
               map_option (np_round 2) (mean (map satisfaction_score (rows_in lo hi df)))\<rparr>)
       (filter (\<lambda>(l, lo, hi). rows_in lo hi df \<noteq> []) wait_intervals)"

section \<open>Example inputs\<close>

text \<open>Small tables, a stand-in for the two tests, and a toy sampler, for concrete runs.\<close>

definition visit :: "int \<Rightarrow> string \<Rightarrow> string \<Rightarrow> rat \<Rightarrow> rat \<Rightarrow> interaction" where
  "visit i d c w s =
     \<lparr>inquiry_id = i, department = d, inquiry_type = ''Add/Drop'', channel = c,
      student_type = ''Graduate'', quarter = ''Fall 2024'', month = ''Oct'',
      day_of_week = ''Monday'', time_slot = ''8-10 AM'', staff_member = ''Staff A'',
      wait_time_min = w, service_time_min = 10, resolution = ''Resolved on First Contact'',
      escalated = ''No'', callback_required = ''No'', satisfaction_score = s\<rparr>"

definition edge_waits :: "interaction list" where
  "edge_waits =
     [visit 1 ''Registrar'' ''Phone'' 0 3, visit 2 ''Registrar'' ''Phone'' 5 4,
      visit 3 ''Admissions'' ''Email'' 5 (41 / 10), visit 4 ''Admissions'' ''Email'' 3 (41 / 10)]"

definition mixed_waits :: "interaction list" where
  "mixed_waits =
     [visit 1 ''Registrar'' ''Phone'' 3 4, visit 2 ''Registrar'' ''Phone'' 5 (41 / 10),
      visit 3 ''Admissions'' ''Email'' 12 (7 / 2), visit 4 ''Admissions'' ''Email'' 50 2]"





definition counter_rng :: "nat np_random" where
  "counter_rng =
     \<lparr>random_seed = (\<lambda>s. s),
      random_choice = (\<lambda>opts p g. (opts ! ((g + g div 3) mod length opts), Suc g)),
      random_exponential = (\<lambda>scale g. (scale * of_nat (g mod 9) * (3 / 4) + 3 / 100, Suc g)),
      random_normal =
        (\<lambda>mu sigma g. (mu + sigma * (of_nat (g mod 7) - 3) * (7 / 10), Suc g))\<rparr>"

definition small_draws :: rng_draws where
  "small_draws =
     \<lparr>d_departments =
        [''Registrar'', ''Student Business Services'', ''General Inquiry'', ''Financial Aid''],
      d_channel = [''Email'', ''Walk-In'', ''Phone'', ''Email''],
      d_quarter = [''Fall 2024'', ''Winter 2025'', ''Spring 2025'', ''Fall 2024''],
      d_months = [''Oct'', ''Jan'', ''Jun'', ''Oct''],
      d_day_of_week = [''Wednesday'', ''Friday'', ''Monday'', ''Tuesday''],
      d_hour = [''8-10 AM'', ''10-12 PM'', ''12-2 PM'', ''8-10 AM''],
      d_staff = [''Staff B'', ''Staff C'', ''Staff E'', ''Staff F''],
      d_inquiry_types =
        [''Graduation Check'', ''Tuition Payment'', ''Department Referral'',
         ''Scholarship Inquiry''],
      d_student_type = [''Undergraduate'', ''Graduate'', ''Prospective'', ''Undergraduate''],
      d_base_wait = [603 / 100, 1203 / 100, 1803 / 100, 2403 / 100],
      d_base_service = [45 / 2, 3 / 2, 5, 17 / 2],
      d_resolution =
        [''Resolved on First Contact'', ''Follow-Up Required'', ''Escalated to Department'',
         ''Resolved on First Contact''],
      d_base_sat = [53 / 25, 67 / 25, 81 / 25, 19 / 5],
      d_callback_choice = [''Yes'', ''Yes'', ''No'', ''Yes'']\<rparr>"

definition other_departments :: "string list" where
  "other_departments = [''Admissions'', ''Admissions'', ''Registrar'', ''General Inquiry'']"

definition small_table :: "interaction list" where
  "small_table =
     [\<lparr>inquiry_id = 10001, department = ''Registrar'', inquiry_type = ''Graduation Check'',
       channel = ''Email'', student_type = ''Undergraduate'', quarter = ''Fall 2024'',
       month = ''Oct'', day_of_week = ''Wednesday'', time_slot = ''8-10 AM'',
       staff_member = ''Staff B'', wait_time_min = 10, service_time_min = 37 / 2,
       resolution = ''Resolved on First Contact'', escalated = ''No'',
       callback_required = ''No'', satisfaction_score = 13 / 5\<rparr>,
      \<lparr>inquiry_id = 10002, department = ''Student Business Services'',
       inquiry_type = ''Tuition Payment'', channel = ''Walk-In'', student_type = ''Graduate'',
       quarter = ''Winter 2025'', month = ''Jan'', day_of_week = ''Friday'',
       time_slot = ''10-12 PM'', staff_member = ''Staff C'', wait_time_min = 20,
       service_time_min = 9 / 2, resolution = ''Follow-Up Required'', escalated = ''No'',
       callback_required = ''Yes'', satisfaction_score = 27 / 10\<rparr>,
      \<lparr>inquiry_id = 10003, department = ''General Inquiry'',
       inquiry_type = ''Department Referral'', channel = ''Phone'',
       student_type = ''Prospective'', quarter = ''Spring 2025'', month = ''Jun'',
       day_of_week = ''Monday'', time_slot = ''12-2 PM'', staff_member = ''Staff E'',
       wait_time_min = 18, service_time_min = 5, resolution = ''Escalated to Department'',
       escalated = ''Yes'', callback_required = ''No'', satisfaction_score = 29 / 10\<rparr>,
      \<lparr>inquiry_id = 10004, department = ''Financial Aid'',
       inquiry_type = ''Scholarship Inquiry'', channel = ''Email'',
       student_type = ''Undergraduate'', quarter = ''Fall 2024'', month = ''Oct'',
       day_of_week = ''Tuesday'', time_slot = ''8-10 AM'', staff_member = ''Staff F'',
       wait_time_min = 28, service_time_min = 19 / 2,
       resolution = ''Resolved on First Contact'', escalated = ''No'',
       callback_required = ''No'', satisfaction_score = 39 / 10\<rparr>]"

section \<open>Facts about rounding\<close>


lemma rint_ge: "of_int k \<le> x \<Longrightarrow> k \<le> rint x"
proof -
  assume "of_int k \<le> x"
  then have "k \<le> \<lfloor>x\<rfloor>" by (simp add: le_floor_iff)
  then show ?thesis by (auto simp: rint_def Let_def)
qed

lemma rint_le: "x \<le> of_int k \<Longrightarrow> rint x \<le> k"
proof -
  assume a: "x \<le> of_int k"
  have f: "of_int \<lfloor>x\<rfloor> \<le> x" by simp
  have "\<lfloor>x\<rfloor> \<le> k" using a by (simp add: floor_le_iff)
  moreover have "x \<noteq> of_int \<lfloor>x\<rfloor> \<Longrightarrow> \<lfloor>x\<rfloor> + 1 \<le> k"
  proof -
    assume "x \<noteq> of_int \<lfloor>x\<rfloor>"
    with f have "of_int \<lfloor>x\<rfloor> < x" by linarith
    with a have "(of_int \<lfloor>x\<rfloor> :: rat) < of_int k" by linarith
    then show ?thesis by simp
  qed
  ultimately show ?thesis by (auto simp: rint_def Let_def)
qed


lemma np_round_clip_bounds:
  assumes "lo = of_int a" "hi = of_int b" "a \<le> b"
  shows "lo \<le> np_round 1 (np_clip lo hi x) \<and> np_round 1 (np_clip lo hi x) \<le> hi"
proof -
  let ?c = "np_clip lo hi x"
  have c: "lo \<le> ?c" "?c \<le> hi" using assms by (auto simp: np_clip_def)
  have "of_int (a * 10) \<le> ?c * 10" using c(1) assms(1) by simp
  then have 1: "a * 10 \<le> rint (?c * 10)" by (rule rint_ge)
  have "?c * 10 \<le> of_int (b * 10)" using c(2) assms(2) by simp
  then have 2: "rint (?c * 10) \<le> b * 10" by (rule rint_le)
  have "(of_int (a * 10) :: rat) \<le> of_int (rint (?c * 10))"
    using 1 by (simp only: of_int_le_iff)
  moreover have "(of_int (rint (?c * 10)) :: rat) \<le> of_int (b * 10)"
    using 2 by (simp only: of_int_le_iff)
  ultimately show ?thesis using assms(1,2) by (simp add: np_round_def field_simps)
qed


section \<open>Facts about grouping\<close>










section \<open>Facts about the wait-time buckets\<close>

lemma pd_cut_wait:
  "pd_cut wait_bins wait_labels x =
     (if x \<le> 0 then None
      else if x \<le> 5 then Some ''0-5 min''
      else if x \<le> 10 then Some ''5-10 min''
      else if x \<le> 15 then Some ''10-15 min''
      else if x \<le> 20 then Some ''15-20 min''
      else if x \<le> 50 then Some ''20+ min'' else None)"
  by (simp add: pd_cut_def wait_bins_def wait_labels_def)

lemma extend_fields [simp]:
  "satisfaction_score (interaction.extend r (bucketed.fields b)) = satisfaction_score r"
  "wait_time_min (interaction.extend r (bucketed.fields b)) = wait_time_min r"
  "wait_bucket (interaction.extend r (bucketed.fields b)) = b"
  "interaction.truncate (interaction.extend r (bucketed.fields b)) = r"
  by (simp_all add: interaction.defs bucketed.defs)

lemma assigned_bucket:
  "r \<in> set (assign_wait_bucket df) \<Longrightarrow>
   wait_bucket r = pd_cut wait_bins wait_labels (wait_time_min r)"
  by (auto simp: assign_wait_bucket_def)

lemma bucket_rows:
  "map satisfaction_score (filter (\<lambda>r. wait_bucket r = Some l) (assign_wait_bucket df)) =
   map satisfaction_score
     (filter (\<lambda>r. pd_cut wait_bins wait_labels (wait_time_min r) = Some l) df)"
  by (induction df) (simp_all add: assign_wait_bucket_def)

lemma bucket_observed:
  "Some l \<in> wait_bucket ` set (assign_wait_bucket df) \<longleftrightarrow>
   filter (\<lambda>r. pd_cut wait_bins wait_labels (wait_time_min r) = Some l) df \<noteq> []"
  by (induction df) (auto simp add: assign_wait_bucket_def)

lemma cut_filter:
  "filter (\<lambda>r. pd_cut wait_bins wait_labels (wait_time_min r) = Some ''0-5 min'') df
     = rows_in 0 5 df"
  "filter (\<lambda>r. pd_cut wait_bins wait_labels (wait_time_min r) = Some ''5-10 min'') df
     = rows_in 5 10 df"
  "filter (\<lambda>r. pd_cut wait_bins wait_labels (wait_time_min r) = Some ''10-15 min'') df
     = rows_in 10 15 df"
  "filter (\<lambda>r. pd_cut wait_bins wait_labels (wait_time_min r) = Some ''15-20 min'') df
     = rows_in 15 20 df"
  "filter (\<lambda>r. pd_cut wait_bins wait_labels (wait_time_min r) = Some ''20+ min'') df
     = rows_in 20 50 df"
  unfolding rows_in_def pd_cut_wait by (rule filter_cong[OF refl]; simp; linarith)+

lemma wb_row:
  "\<lparr>bucket = l,
     wb_count =
       length (map inquiry_id (filter (\<lambda>r. wait_bucket r = Some l) (assign_wait_bucket df))),
     wb_avg_sat =
       map_option (np_round 2)
         (mean (map satisfaction_score
            (filter (\<lambda>r. wait_bucket r = Some l) (assign_wait_bucket df))))\<rparr>
   = (let g = filter (\<lambda>r. pd_cut wait_bins wait_labels (wait_time_min r) = Some l) df
      in \<lparr>bucket = l, wb_count = length g,
           wb_avg_sat = map_option (np_round 2) (mean (map satisfaction_score g))\<rparr>)"
proof -
  have "length (filter (\<lambda>r. wait_bucket r = Some l) (assign_wait_bucket df)) =
        length (map satisfaction_score
          (filter (\<lambda>r. wait_bucket r = Some l) (assign_wait_bucket df)))"
    by simp
  then show ?thesis unfolding bucket_rows by (simp add: Let_def)
qed

lemma sat_by_wait_refines: "sat_by_wait (assign_wait_bucket df) = sat_by_wait_spec df"
  unfolding sat_by_wait_def groupby_observed_def sat_by_wait_spec_def wait_intervals_def
    wait_labels_def
  by (simp add: bucket_observed wb_row cut_filter Let_def del: length_map map_map)



section \<open>Facts about the generator\<close>

lemma derive_table_row:
  assumes "derive_table n d b = Inr df" and "r \<in> set df"
  shows "\<exists>i<n.
           resolution r = d_resolution d ! i \<and>
           escalated r = escalated_col (d_resolution d) ! i \<and>
           callback_required r = callback_col (d_resolution d) (d_callback_choice d) ! i \<and>
           wait_time_min r =
             wait_time_col (d_base_wait d) (d_channel d) (d_quarter d) (d_months d) ! i \<and>
           service_time_min r =
             service_time_col (d_base_service d) (d_departments d) (d_channel d) ! i \<and>
           satisfaction_score r =
             satisfaction_col (d_base_sat d) (d_resolution d)
               (wait_time_col (d_base_wait d) (d_channel d) (d_quarter d) (d_months d)) ! i"
proof -
  from assms obtain i where "i < n" and
    "r = \<lparr>inquiry_id = 10001 + int i,
          department = d_departments d ! i,
          inquiry_type = d_inquiry_types d ! i,
          channel = d_channel d ! i,
          student_type = d_student_type d ! i,
          quarter = d_quarter d ! i,
          month = d_months d ! i,
          day_of_week = d_day_of_week d ! i,
          time_slot = d_hour d ! i,
          staff_member = d_staff d ! i,
          wait_time_min =
            wait_time_col (d_base_wait d) (d_channel d) (d_quarter d) (d_months d) ! i,
          service_time_min =
            service_time_col (d_base_service d) (d_departments d) (d_channel d) ! i,
          resolution = d_resolution d ! i,
          escalated = escalated_col (d_resolution d) ! i,
          callback_required = callback_col (d_resolution d) (d_callback_choice d) ! i,
          satisfaction_score =
            satisfaction_col (d_base_sat d) (d_resolution d)
              (wait_time_col (d_base_wait d) (d_channel d) (d_quarter d) (d_months d)) ! i\<rparr>"
    by (auto simp: derive_table_def Let_def split: if_splits)
  then show ?thesis by (intro exI[of _ i]) simp
qed

lemma derive_table_lengths:
  assumes "derive_table n d b = Inr df"
  shows "length (d_departments d) = n" "length (d_channel d) = n" "length (d_quarter d) = n"
    "length (d_months d) = n" "length (d_base_wait d) = n" "length (d_base_service d) = n"
    "length (d_resolution d) = n" "length (d_base_sat d) = n"
    "length (d_callback_choice d) = n"
  using assms by (simp_all add: derive_table_def split: if_splits)

lemma wait_time_col_nth:
  assumes "length bw = n" "length ch = n" "length q = n" "length m = n" "i < n"
  shows "\<exists>x. wait_time_col bw ch q m ! i = np_round 1 (np_clip 0 45 x)"
  using assms by (auto simp: wait_time_col_def wait_adj_def add_cols_def np_where_eq_def)

lemma service_time_col_nth:
  assumes "length bs = n" "length deps = n" "length ch = n" "i < n"
  shows "\<exists>x. service_time_col bs deps ch ! i = np_round 1 (np_clip 2 40 x)"
  using assms by (auto simp: service_time_col_def service_adj_def add_cols_def np_where_eq_def)

lemma satisfaction_col_nth:
  assumes "length bs = n" "length res = n" "length w = n" "i < n"
  shows "\<exists>x. satisfaction_col bs res w ! i = np_round 1 (np_clip 1 5 x)"
  using assms by (auto simp: satisfaction_col_def sat_adj_def add_cols_def np_where_eq_def)

lemma wait_time_col_length:
  "length bw = n \<Longrightarrow> length ch = n \<Longrightarrow> length q = n \<Longrightarrow> length m = n \<Longrightarrow>
   length (wait_time_col bw ch q m) = n"
  by (simp add: wait_time_col_def wait_adj_def add_cols_def np_where_eq_def)

lemma escalated_col_nth:
  "i < length res \<Longrightarrow>
   escalated_col res ! i = (if res ! i = ''Escalated to Department'' then ''Yes'' else ''No'')"
  by (simp add: escalated_col_def np_where_eq_def)

lemma callback_col_nth:
  "i < length res \<Longrightarrow> i < length cc \<Longrightarrow>
   callback_col res cc ! i = (if res ! i = ''Follow-Up Required'' then cc ! i else ''No'')"
  by (simp add: callback_col_def)

lemma generate_data_build:
  assumes "generate_data np seed n g = Inr df"
  shows "\<exists>d. sample_draws np n (random_seed np seed) = Inr d \<and> build_df n d = Inr df"
  using assms by (auto simp: generate_data_def Let_def split: sum.splits)

lemma build_df_escalated:
  assumes "build_df n d = Inr df" "r \<in> set df"
  shows "(escalated r = ''Yes'') = (resolution r = ''Escalated to Department'')"
proof -
  from assms have dt: "derive_table n d (fcr_boost (d_departments d)) = Inr df"
    by (simp add: build_df_def)
  from derive_table_row[OF dt assms(2)] obtain i where i: "i < n"
    "resolution r = d_resolution d ! i" "escalated r = escalated_col (d_resolution d) ! i"
    by blast
  with derive_table_lengths(7)[OF dt] show ?thesis by (simp add: escalated_col_nth)
qed

lemma build_df_callback:
  assumes "build_df n d = Inr df" "r \<in> set df" "callback_required r = ''Yes''"
  shows "resolution r = ''Follow-Up Required''"
proof -
  from assms have dt: "derive_table n d (fcr_boost (d_departments d)) = Inr df"
    by (simp add: build_df_def)
  from derive_table_row[OF dt assms(2)] obtain i where i: "i < n"
    "resolution r = d_resolution d ! i"
    "callback_required r = callback_col (d_resolution d) (d_callback_choice d) ! i"
    by blast
  with derive_table_lengths(7,9)[OF dt] assms(3) show ?thesis
    by (simp add: callback_col_nth split: if_splits)
qed

lemma build_df_rounded:
  assumes "build_df n d = Inr df" "r \<in> set df"
  shows "(\<exists>x. wait_time_min r = np_round 1 (np_clip 0 45 x)) \<and>
         (\<exists>x. service_time_min r = np_round 1 (np_clip 2 40 x)) \<and>
         (\<exists>x. satisfaction_score r = np_round 1 (np_clip 1 5 x))"
proof -
  from assms have dt: "derive_table n d (fcr_boost (d_departments d)) = Inr df"
    by (simp add: build_df_def)
  note len = derive_table_lengths[OF dt]
  from derive_table_row[OF dt assms(2)] obtain i where i: "i < n"
    "wait_time_min r =
       wait_time_col (d_base_wait d) (d_channel d) (d_quarter d) (d_months d) ! i"
    "service_time_min r =
       service_time_col (d_base_service d) (d_departments d) (d_channel d) ! i"
    "satisfaction_score r =
       satisfaction_col (d_base_sat d) (d_resolution d)
         (wait_time_col (d_base_wait d) (d_channel d) (d_quarter d) (d_months d)) ! i"
    by blast
  have w: "length (wait_time_col (d_base_wait d) (d_channel d) (d_quarter d) (d_months d)) = n"
    using len by (intro wait_time_col_length)
  show ?thesis
    using wait_time_col_nth[OF len(5) len(2) len(3) len(4) i(1)]
      service_time_col_nth[OF len(6) len(1) len(2) i(1)]
      satisfaction_col_nth[OF len(8) len(7) w i(1)] i(2,3,4)
    by simp
qed

lemma map_resolution_derive:
  assumes "derive_table n d b = Inr df"
  shows "map resolution df = d_resolution d"
proof -
  from assms have len: "length (d_resolution d) = n"
    by (simp add: derive_table_def split: if_splits)
  from assms have "map resolution df = map (\<lambda>i. d_resolution d ! i) [0..<n]"
    by (auto simp: derive_table_def Let_def comp_def split: if_splits)
  with len show ?thesis by (metis map_nth)
qed

lemma derive_table_boost: "derive_table n d b = derive_table n d b'"
  by (simp add: derive_table_def)

lemma derive_table_departments:
  assumes "length deps = length (d_departments d)"
  shows "map_sum id (map resolution) (derive_table n (d\<lparr>d_departments := deps\<rparr>) b) =
         map_sum id (map resolution) (derive_table n d b')"
  using assms by (simp add: derive_table_def Let_def comp_def)

lemma sample_draws_resolution:
  assumes "sample_draws np n g0 = Inr d"
  shows "\<exists>g. d_resolution d =
           fst (draw_n n (random_choice np
             [''Resolved on First Contact'', ''Follow-Up Required'',
              ''Escalated to Department'', ''Referred to Another Office'']
             (Some [55 / 100, 20 / 100, 15 / 100, 10 / 100])) g)"
  using assms
  by (auto simp: sample_draws_def Let_def split: prod.splits sum.splits) (metis fst_conv)

lemma small_sample: "sample_draws counter_rng 4 (random_seed counter_rng 1) = Inr small_draws"
  by code_simp

lemma small_build: "build_df 4 small_draws = Inr small_table"
  by code_simp

lemma small_run: "generate_data counter_rng 1 4 g = Inr small_table"
  by (simp only: generate_data_def Let_def small_sample sum.case small_build)

lemma quiet_follow_up:
  "(case generate_data counter_rng 42 3 0 of
      Inl e \<Rightarrow> False
    | Inr df \<Rightarrow>
        list_ex (\<lambda>r. resolution r = ''Follow-Up Required'' \<and> callback_required r = ''No'') df)"
  by code_simp

section \<open>The claims\<close>

text \<open>
  Claim C1, as the code has it. The bins of \<open>pd.cut\<close> are closed on the right: for every
  table with no wait time of exactly zero, a row carries the label \<open>0-5 min\<close> exactly when
  \<open>0 < wait_time_min \<le> 5\<close>, \<open>5-10 min\<close> exactly when \<open>5 < wait_time_min \<le> 10\<close>, and so on
  up to \<open>20+ min\<close> for \<open>20 < wait_time_min \<le> 50\<close>; and the view lists, for each bucket
  that holds a row, the number of its rows and their mean satisfaction rounded to two
  decimals.
\<close>

theorem wait_buckets_right_closed:
  assumes "\<forall>r \<in> set df. wait_time_min r \<noteq> 0"
  shows "(\<forall>r \<in> set (assign_wait_bucket df). \<forall>(l, lo, hi) \<in> set wait_intervals.
            (wait_bucket r = Some l) = (lo < wait_time_min r \<and> wait_time_min r \<le> hi)) \<and>
         sat_by_wait (assign_wait_bucket df) = sat_by_wait_spec df"
proof
  show "\<forall>r \<in> set (assign_wait_bucket df). \<forall>(l, lo, hi) \<in> set wait_intervals.
          (wait_bucket r = Some l) = (lo < wait_time_min r \<and> wait_time_min r \<le> hi)"
  proof
    fix r assume "r \<in> set (assign_wait_bucket df)"
    then have "wait_bucket r = pd_cut wait_bins wait_labels (wait_time_min r)"
      by (rule assigned_bucket)
    then show "\<forall>(l, lo, hi) \<in> set wait_intervals.
          (wait_bucket r = Some l) = (lo < wait_time_min r \<and> wait_time_min r \<le> hi)"
      by (simp add: pd_cut_wait wait_intervals_def)
  qed
  show "sat_by_wait (assign_wait_bucket df) = sat_by_wait_spec df"
    by (rule sat_by_wait_refines)
qed

text \<open>The view of a table with waits 3, 5, 12 and 50.\<close>

theorem wait_buckets_right_closed_witness:
  "list_all (\<lambda>r. wait_time_min r \<noteq> 0) mixed_waits \<and>
   sat_by_wait (assign_wait_bucket mixed_waits) =
     [\<lparr>bucket = ''0-5 min'', wb_count = 2, wb_avg_sat = Some (81 / 20)\<rparr>,
      \<lparr>bucket = ''10-15 min'', wb_count = 1, wb_avg_sat = Some (7 / 2)\<rparr>,
      \<lparr>bucket = ''20+ min'', wb_count = 1, wb_avg_sat = Some 2\<rparr>]"
proof -
  have h: "\<forall>r \<in> set mixed_waits. wait_time_min r \<noteq> 0"
    by (simp add: mixed_waits_def visit_def)
  have v: "sat_by_wait_spec mixed_waits =
     [\<lparr>bucket = ''0-5 min'', wb_count = 2, wb_avg_sat = Some (81 / 20)\<rparr>,
      \<lparr>bucket = ''10-15 min'', wb_count = 1, wb_avg_sat = Some (7 / 2)\<rparr>,
      \<lparr>bucket = ''20+ min'', wb_count = 1, wb_avg_sat = Some 2\<rparr>]"
    by code_simp
  from wait_buckets_right_closed[OF h] v h show ?thesis
    by (simp add: list_all_iff)
qed

text \<open>
  Against C1 as stated: in a table with waits 0, 5, 5 and 3 the two rows with a wait of
  exactly 5 carry \<open>0-5 min\<close>, not \<open>5-10 min\<close>; the row with a wait of 0 carries no label
  and is counted nowhere; and the line reports 4.07, the mean 61/15 rounded.
\<close>

theorem wait_buckets_left_closed_counterexample:
  "map wait_time_min edge_waits = [0, 5, 5, 3] \<and>
   map wait_bucket (assign_wait_bucket edge_waits) =
     [None, Some ''0-5 min'', Some ''0-5 min'', Some ''0-5 min''] \<and>
   sat_by_wait (assign_wait_bucket edge_waits) =
     [\<lparr>bucket = ''0-5 min'', wb_count = 3, wb_avg_sat = Some (407 / 100)\<rparr>]"
  by code_simp







text \<open>
  Claim C4. In every table the generator produces, a row has \<open>escalated = "Yes"\<close> if and
  only if its \<open>resolution\<close> is \<open>"Escalated to Department"\<close>.
\<close>

theorem escalated_iff_resolution:
  assumes "generate_data np seed n g = Inr df"
  shows "\<forall>r \<in> set df. (escalated r = ''Yes'') = (resolution r = ''Escalated to Department'')"
proof
  fix r assume r: "r \<in> set df"
  from generate_data_build[OF assms] obtain d where "build_df n d = Inr df" by blast
  then show "(escalated r = ''Yes'') = (resolution r = ''Escalated to Department'')"
    using r by (rule build_df_escalated)
qed

theorem escalated_iff_resolution_witness:
  "generate_data counter_rng 1 4 0 = Inr small_table \<and>
   list_all (\<lambda>r. (escalated r = ''Yes'') = (resolution r = ''Escalated to Department''))
     small_table \<and>
   map escalated small_table = [''No'', ''No'', ''Yes'', ''No'']"
proof -
  have "map escalated small_table = [''No'', ''No'', ''Yes'', ''No'']"
    by (simp add: small_table_def)
  with escalated_iff_resolution[OF small_run[of 0]] small_run[of 0] show ?thesis
    by (simp add: list_all_iff)
qed

text \<open>
  Claim C5. In every table the generator produces, each row has \<open>wait_time_min\<close> in
  [0, 45], \<open>service_time_min\<close> in [2, 40] and \<open>satisfaction_score\<close> in [1, 5], and each of
  the three is a value clipped to its range and then rounded to one decimal.
\<close>

theorem generated_ranges:
  assumes "generate_data np seed n g = Inr df"
  shows "\<forall>r \<in> set df.
           0 \<le> wait_time_min r \<and> wait_time_min r \<le> 45 \<and>
           2 \<le> service_time_min r \<and> service_time_min r \<le> 40 \<and>
           1 \<le> satisfaction_score r \<and> satisfaction_score r \<le> 5 \<and>
           (\<exists>x. wait_time_min r = np_round 1 (np_clip 0 45 x)) \<and>
           (\<exists>x. service_time_min r = np_round 1 (np_clip 2 40 x)) \<and>
           (\<exists>x. satisfaction_score r = np_round 1 (np_clip 1 5 x))"
proof
  fix r assume r: "r \<in> set df"
  from generate_data_build[OF assms] obtain d where "build_df n d = Inr df" by blast
  from build_df_rounded[OF this r] obtain x y z where
    w: "wait_time_min r = np_round 1 (np_clip 0 45 x)" and
    s: "service_time_min r = np_round 1 (np_clip 2 40 y)" and
    q: "satisfaction_score r = np_round 1 (np_clip 1 5 z)"
    by blast
  have "0 \<le> np_round 1 (np_clip 0 45 x) \<and> np_round 1 (np_clip 0 45 x) \<le> 45"
    by (rule np_round_clip_bounds[of 0 0 45 45]) simp_all
  moreover have "2 \<le> np_round 1 (np_clip 2 40 y) \<and> np_round 1 (np_clip 2 40 y) \<le> 40"
    by (rule np_round_clip_bounds[of 2 2 40 40]) simp_all
  moreover have "1 \<le> np_round 1 (np_clip 1 5 z) \<and> np_round 1 (np_clip 1 5 z) \<le> 5"
    by (rule np_round_clip_bounds[of 1 1 5 5]) simp_all
  ultimately show
    "0 \<le> wait_time_min r \<and> wait_time_min r \<le> 45 \<and>
     2 \<le> service_time_min r \<and> service_time_min r \<le> 40 \<and>
     1 \<le> satisfaction_score r \<and> satisfaction_score r \<le> 5 \<and>
     (\<exists>x. wait_time_min r = np_round 1 (np_clip 0 45 x)) \<and>
     (\<exists>x. service_time_min r = np_round 1 (np_clip 2 40 x)) \<and>
     (\<exists>x. satisfaction_score r = np_round 1 (np_clip 1 5 x))"
    using w s q by auto
qed

theorem generated_ranges_witness:
  "generate_data counter_rng 1 4 0 = Inr small_table \<and>
   list_all (\<lambda>r. 0 \<le> wait_time_min r \<and> wait_time_min r \<le> 45 \<and>
                 2 \<le> service_time_min r \<and> service_time_min r \<le> 40 \<and>
                 1 \<le> satisfaction_score r \<and> satisfaction_score r \<le> 5) small_table \<and>
   map wait_time_min small_table = [10, 20, 18, 28]"
proof -
  have "map wait_time_min small_table = [10, 20, 18, 28]"
    by (simp add: small_table_def)
  with generated_ranges[OF small_run[of 0]] small_run[of 0] show ?thesis
    by (simp add: list_all_iff)
qed

text \<open>
  Claim C6. The \<open>resolution\<close> column is a draw of \<open>np.random.choice\<close> over the four
  resolutions with the fixed probabilities (0.55, 0.20, 0.15, 0.10), and nothing else
  enters it: two runs on the same draws that differ only in the department column have
  the same resolution in every row, and the table is the same whatever value the
  variable \<open>fcr_boost\<close> holds.
\<close>

theorem resolution_ignores_department:
  "(generate_data np seed n g = Inr df \<longrightarrow>
      (\<exists>g'. map resolution df =
         fst (draw_n n (random_choice np
           [''Resolved on First Contact'', ''Follow-Up Required'',
            ''Escalated to Department'', ''Referred to Another Office'']
           (Some [55 / 100, 20 / 100, 15 / 100, 10 / 100])) g'))) \<and>
   (length deps = length (d_departments d) \<longrightarrow>
      map_sum id (map resolution) (build_df n (d\<lparr>d_departments := deps\<rparr>)) =
      map_sum id (map resolution) (build_df n d)) \<and>
   derive_table n d b = derive_table n d b'"
proof (intro conjI impI)
  assume gen: "generate_data np seed n g = Inr df"
  from generate_data_build[OF gen] obtain d0 where
    s: "sample_draws np n (random_seed np seed) = Inr d0" and t: "build_df n d0 = Inr df"
    by blast
  from t have "map resolution df = d_resolution d0"
    unfolding build_df_def by (rule map_resolution_derive)
  with sample_draws_resolution[OF s]
  show "\<exists>g'. map resolution df =
         fst (draw_n n (random_choice np
           [''Resolved on First Contact'', ''Follow-Up Required'',
            ''Escalated to Department'', ''Referred to Another Office'']
           (Some [55 / 100, 20 / 100, 15 / 100, 10 / 100])) g')"
    by simp
next
  assume "length deps = length (d_departments d)"
  then show "map_sum id (map resolution) (build_df n (d\<lparr>d_departments := deps\<rparr>)) =
             map_sum id (map resolution) (build_df n d)"
    unfolding build_df_def by (rule derive_table_departments)
next
  show "derive_table n d b = derive_table n d b'" by (rule derive_table_boost)
qed

theorem resolution_ignores_department_witness:
  "generate_data counter_rng 1 4 0 = Inr small_table \<and>
   (\<exists>g'. map resolution small_table =
      fst (draw_n 4 (random_choice counter_rng
        [''Resolved on First Contact'', ''Follow-Up Required'',
         ''Escalated to Department'', ''Referred to Another Office'']
        (Some [55 / 100, 20 / 100, 15 / 100, 10 / 100])) g')) \<and>
   length other_departments = length (d_departments small_draws) \<and>
   other_departments \<noteq> d_departments small_draws \<and>
   map_sum id (map resolution) (build_df 4 (small_draws\<lparr>d_departments := other_departments\<rparr>)) =
     Inr [''Resolved on First Contact'', ''Follow-Up Required'', ''Escalated to Department'',
          ''Resolved on First Contact'']"
proof -
  have len: "length other_departments = length (d_departments small_draws)"
    by (simp add: other_departments_def small_draws_def)
  have ne: "other_departments \<noteq> d_departments small_draws"
    by (simp add: other_departments_def small_draws_def)
  have res: "map_sum id (map resolution) (build_df 4 small_draws) =
     Inr [''Resolved on First Contact'', ''Follow-Up Required'', ''Escalated to Department'',
          ''Resolved on First Contact'']"
    by (simp add: small_build small_table_def)
  from resolution_ignores_department
         [where np = counter_rng and seed = 1 and n = 4 and g = 0 and df = small_table
            and deps = other_departments and d = small_draws]
       small_run[of 0] len ne res
  show ?thesis by simp
qed

text \<open>
  Claim C7. Two runs of the generator with the same seed and the same count produce the
  same table, row by row and column by column, whatever state the random source was in
  when each run started.
\<close>

theorem generator_reproducible:
  "generate_data np seed n g1 = generate_data np seed n g2"
  by (simp add: generate_data_def)

theorem generator_reproducible_witness:
  "generate_data counter_rng 1 4 0 = generate_data counter_rng 1 4 77 \<and>
   generate_data counter_rng 1 4 77 = Inr small_table"
  using generator_reproducible[of counter_rng 1 4 0 77] small_run[of 77] by simp




text \<open>
  Claim C9. In every table the generator produces, a row with \<open>callback_required =
  "Yes"\<close> has \<open>resolution = "Follow-Up Required"\<close>. The converse does not hold: there is
  a run with a row whose resolution is \<open>"Follow-Up Required"\<close> and whose
  \<open>callback_required\<close> is \<open>"No"\<close>.
\<close>

theorem callback_implies_follow_up:
  "(generate_data np seed n g = Inr df \<longrightarrow>
      (\<forall>r \<in> set df. callback_required r = ''Yes'' \<longrightarrow> resolution r = ''Follow-Up Required'')) \<and>
   (\<exists>(np' :: nat np_random) seed' n' g' df' r'.
      generate_data np' seed' n' g' = Inr df' \<and> r' \<in> set df' \<and>
      resolution r' = ''Follow-Up Required'' \<and> callback_required r' = ''No'')"
proof (intro conjI impI ballI)
  fix r
  assume gen: "generate_data np seed n g = Inr df" and r: "r \<in> set df"
    and yes: "callback_required r = ''Yes''"
  from generate_data_build[OF gen] obtain d where "build_df n d = Inr df" by blast
  then show "resolution r = ''Follow-Up Required''" using r yes by (rule build_df_callback)
next
  from quiet_follow_up obtain df' where
    run: "generate_data counter_rng 42 3 0 = Inr df'" and
    ex: "list_ex (\<lambda>r. resolution r = ''Follow-Up Required'' \<and> callback_required r = ''No'') df'"
    by (auto split: sum.splits)
  from ex obtain r' where "r' \<in> set df'" "resolution r' = ''Follow-Up Required''"
    "callback_required r' = ''No''"
    by (auto simp: list_ex_iff)
  with run show "\<exists>(np' :: nat np_random) seed' n' g' df' r'.
      generate_data np' seed' n' g' = Inr df' \<and> r' \<in> set df' \<and>
      resolution r' = ''Follow-Up Required'' \<and> callback_required r' = ''No''"
    by blast
qed

theorem callback_implies_follow_up_witness:
  "generate_data counter_rng 1 4 0 = Inr small_table \<and>
   map callback_required small_table = [''No'', ''Yes'', ''No'', ''No''] \<and>
   resolution (small_table ! 1) = ''Follow-Up Required''"
proof -
  have cb: "map callback_required small_table = [''No'', ''Yes'', ''No'', ''No'']"
    by (simp add: small_table_def)
  have mem: "small_table ! 1 \<in> set small_table" by (simp add: small_table_def)
  have yes: "callback_required (small_table ! 1) = ''Yes''" by (simp add: small_table_def)
  from callback_implies_follow_up[of counter_rng 1 4 0 small_table] small_run[of 0] mem yes
  have "resolution (small_table ! 1) = ''Follow-Up Required''" by blast
  with small_run[of 0] cb show ?thesis by simp
qed



end
